theory Spec2Isabelle
  imports Main
begin

section \<open>Python values, exceptions and string operations\<close>

text \<open>
  The program is \<^verbatim>\<open>kswatch.py\<close>, a Python 3 script (its interpreter line names
  \<^verbatim>\<open>python3\<close>, and it imports \<^verbatim>\<open>html\<close> and \<^verbatim>\<open>configparser\<close>, which only Python 3 has).
  An exception that the script raises and does not catch is a value \<open>Inl e\<close>.
  A Python \<^verbatim>\<open>str\<close> is a \<open>string\<close>; a value that may be \<^verbatim>\<open>None\<close> is an option.
  Characters are HOL characters (code points 0 to 255).
\<close>

datatype error =
    KeyError string
  | TypeError
  | AttributeError string
  | NameError string
  | ValueError
  | OverflowError
  | RequestException
  | ParserError
  | MissingSectionHeaderError

text \<open>Sequencing of two computations that may raise.\<close>

definition and_then :: "error + 'a \<Rightarrow> ('a \<Rightarrow> error + 'b) \<Rightarrow> error + 'b" where
  "and_then m f = (case m of Inl e \<Rightarrow> Inl e | Inr x \<Rightarrow> f x)"

text \<open>\<^verbatim>\<open>s.encode('ascii', 'ignore').decode()\<close>: the characters above 127 are dropped.\<close>

definition ascii :: "string \<Rightarrow> string" where
  "ascii s = filter (\<lambda>c. (of_char c :: nat) < 128) s"

text \<open>
  The characters that \<^verbatim>\<open>str.split()\<close> and \<^verbatim>\<open>str.strip()\<close> take for white space, among the
  code points 0 to 255: 9 to 13, 28 to 32, 133 and 160.
\<close>

definition isspace :: "char \<Rightarrow> bool" where
  "isspace c =
     (let n = (of_char c :: nat)
      in (9 \<le> n \<and> n \<le> 13) \<or> (28 \<le> n \<and> n \<le> 32) \<or> n = 133 \<or> n = 160)"

text \<open>
  \<^verbatim>\<open>s.split()\<close>: the maximal runs of characters that are not white space, in order.
  The first argument holds the characters of the current run, last one first.
\<close>

fun split_run :: "string \<Rightarrow> string \<Rightarrow> string list" where
  "split_run w [] = (if w = [] then [] else [rev w])"
| "split_run w (c # cs) =
     (if isspace c then (if w = [] then split_run [] cs else rev w # split_run [] cs)
      else split_run (c # w) cs)"

definition py_split :: "string \<Rightarrow> string list" where
  "py_split s = split_run [] s"

text \<open>\<^verbatim>\<open>' '.join(ws)\<close>.\<close>

fun py_join :: "string list \<Rightarrow> string" where
  "py_join [] = []"
| "py_join [w] = w"
| "py_join (w # v # ws) = w @ CHR '' '' # py_join (v # ws)"

text \<open>\<^verbatim>\<open>s.strip()\<close>.\<close>

definition strip :: "string \<Rightarrow> string" where
  "strip s = rev (dropWhile isspace (rev (dropWhile isspace s)))"

text \<open>\<^verbatim>\<open>needle in hay\<close> on two strings: \<open>needle\<close> occurs in \<open>hay\<close> as a substring.\<close>

fun starts_with :: "string \<Rightarrow> string \<Rightarrow> bool" where
  "starts_with [] hay = True"
| "starts_with (n # ns) [] = False"
| "starts_with (n # ns) (h # hs) = (n = h \<and> starts_with ns hs)"

fun contains :: "string \<Rightarrow> string \<Rightarrow> bool" where
  "contains needle [] = (needle = [])"
| "contains needle (h # hs) = (starts_with needle (h # hs) \<or> contains needle hs)"

text \<open>
  \<^verbatim>\<open>marker in attrs['class']\<close>: the value of an attribute written without a value
  (\<^verbatim>\<open><li class>\<close>) is \<^verbatim>\<open>None\<close>, and \<^verbatim>\<open>in\<close> on \<^verbatim>\<open>None\<close> raises a TypeError.
\<close>

definition class_has :: "string \<Rightarrow> string option \<Rightarrow> error + bool" where
  "class_has marker cls =
     (case cls of None \<Rightarrow> Inl TypeError | Some c \<Rightarrow> Inr (contains marker c))"

section \<open>The parser: class KickstarterHTMLParser\<close>

text \<open>
  A reward is the tuple that \<^verbatim>\<open>handle_endtag\<close> appends: the pledge amount, the reward ID
  (\<^verbatim>\<open>None\<close> when the \<^verbatim>\<open>id\<close> attribute has no value) and the description.
\<close>

type_synonym reward = "string \<times> string option \<times> string"

text \<open>
  The attributes of the parser object. \<^verbatim>\<open>__init__\<close> assigns \<^verbatim>\<open>in_li_block\<close>,
  \<^verbatim>\<open>in_desc_block\<close> and \<^verbatim>\<open>name\<close> only; \<^verbatim>\<open>value\<close>, \<^verbatim>\<open>ident\<close> and \<^verbatim>\<open>description\<close> do not exist
  until a handler assigns them, which is the outer \<open>None\<close> here. \<^verbatim>\<open>rewards\<close> is assigned by
  \<^verbatim>\<open>process\<close> before any handler runs.
\<close>

record parser =
  in_li_block :: bool
  in_desc_block :: bool
  name :: "string option"
  value' :: "string option"
  ident :: "string option option"
  description :: "string option"
  rewards :: "reward list"

definition init :: parser where
  "init = \<lparr>in_li_block = False, in_desc_block = False, name = Some [],
            value' = None, ident = None, description = None, rewards = []\<rparr>"

text \<open>
  What \<^verbatim>\<open>HTMLParser.feed\<close> of the standard library calls the handlers with: a start tag
  with its attribute list (names in lower case, \<open>None\<close> for an attribute without a value),
  an empty-element tag (\<^verbatim>\<open><input ... />\<close>, for which the library calls \<^verbatim>\<open>handle_starttag\<close>
  and then \<^verbatim>\<open>handle_endtag\<close>), an end tag, and text.
\<close>

datatype event =
    StartTag string "(string \<times> string option) list"
  | StartEndTag string "(string \<times> string option) list"
  | EndTag string
  | Data string

text \<open>
  Lines 89 and 90: \<^verbatim>\<open>attrs['title']\<close> and \<^verbatim>\<open>attrs['id']\<close> raise a KeyError when the
  attribute is missing; \<^verbatim>\<open>.encode\<close> on a title without a value raises an AttributeError.
\<close>

definition capture :: "parser \<Rightarrow> (string \<rightharpoonup> string option) \<Rightarrow> error + parser" where
  "capture p attrs =
     (case attrs ''title'' of
        None \<Rightarrow> Inl (KeyError ''title'')
      | Some None \<Rightarrow> Inl (AttributeError ''encode'')
      | Some (Some t) \<Rightarrow>
          (case attrs ''id'' of
             None \<Rightarrow> Inl (KeyError ''id'')
           | Some i \<Rightarrow> Inr (p\<lparr>value' := Some (ascii t), ident := Some i\<rparr>)))"

text \<open>
  Lines 74 to 96. \<^verbatim>\<open>dict(attributes)\<close> keeps the last value of a repeated attribute
  name. The three conditions use \<^verbatim>\<open>and\<close>, which does not evaluate its right side when
  the left side is false.
\<close>

definition handle_starttag ::
  "parser \<Rightarrow> string \<Rightarrow> (string \<times> string option) list \<Rightarrow> error + parser" where
  "handle_starttag p tag attributes =
     (let attrs = map_of (rev attributes) in
      case attrs ''class'' of
        None \<Rightarrow> Inr p
      | Some cls \<Rightarrow>
          and_then (if in_li_block p then class_has ''pledge__title'' cls else Inr False)
            (\<lambda>t. let p1 = (if t then p\<lparr>in_desc_block := True\<rparr> else p) in
          and_then (if in_li_block p1 \<and> tag = ''input''
                    then class_has ''pledge__radio'' cls else Inr False)
            (\<lambda>r.
          and_then (if r then capture p1 attrs else Inr p1)
            (\<lambda>p2.
          and_then (if tag = ''li'' then class_has ''pledge--all-gone'' cls else Inr False)
            (\<lambda>g. Inr (if g then p2\<lparr>in_li_block := True, description := Some []\<rparr>
                       else p2))))))"

text \<open>Lines 101 to 104: the tuple reads \<^verbatim>\<open>self.value\<close>, \<^verbatim>\<open>self.ident\<close>, \<^verbatim>\<open>self.description\<close>.\<close>

definition emit :: "parser \<Rightarrow> error + parser" where
  "emit p =
     (case value' p of
        None \<Rightarrow> Inl (AttributeError ''value'')
      | Some v \<Rightarrow>
          (case ident p of
             None \<Rightarrow> Inl (AttributeError ''ident'')
           | Some i \<Rightarrow>
               (case description p of
                  None \<Rightarrow> Inl (AttributeError ''description'')
                | Some d \<Rightarrow>
                    Inr (p\<lparr>rewards := rewards p @ [(v, i, py_join (py_split d))],
                           in_li_block := False\<rparr>))))"

definition handle_endtag :: "parser \<Rightarrow> string \<Rightarrow> error + parser" where
  "handle_endtag p tag =
     and_then (if tag = ''li'' \<and> in_li_block p then emit p else Inr p)
       (\<lambda>p1. Inr (if tag = ''h3'' then p1\<lparr>in_desc_block := False\<rparr> else p1))"

text \<open>
  Lines 108 to 110. \<^verbatim>\<open>html.unescape\<close> belongs to the standard library and is a parameter.
\<close>

definition handle_data :: "(string \<Rightarrow> string) \<Rightarrow> parser \<Rightarrow> string \<Rightarrow> error + parser" where
  "handle_data unescape p data =
     (if in_desc_block p then
        (case description p of
           None \<Rightarrow> Inl (AttributeError ''description'')
         | Some d \<Rightarrow> Inr (p\<lparr>description := Some (d @ ascii (unescape data))\<rparr>))
      else Inr p)"

fun dispatch :: "(string \<Rightarrow> string) \<Rightarrow> parser \<Rightarrow> event \<Rightarrow> error + parser" where
  "dispatch unescape p (StartTag tag attributes) = handle_starttag p tag attributes"
| "dispatch unescape p (StartEndTag tag attributes) =
     and_then (handle_starttag p tag attributes) (\<lambda>p1. handle_endtag p1 tag)"
| "dispatch unescape p (EndTag tag) = handle_endtag p tag"
| "dispatch unescape p (Data data) = handle_data unescape p data"

text \<open>\<^verbatim>\<open>feed\<close>: the handlers run in document order; the first exception ends the run.\<close>

fun feed :: "(string \<Rightarrow> string) \<Rightarrow> parser \<Rightarrow> event list \<Rightarrow> error + parser" where
  "feed unescape p [] = Inr p"
| "feed unescape p (ev # evs) = and_then (dispatch unescape p ev) (\<lambda>p1. feed unescape p1 evs)"

text \<open>
  The body that \<^verbatim>\<open>requests.get\<close> returned, as lines 69 and 71 see it. \<open>title\<close> is what
  \<^verbatim>\<open>fromstring(res.content).findtext('.//title')\<close> of line 69 does: the exception that
  \<^verbatim>\<open>fromstring\<close> raises (a ParserError on a body without an element, such as an empty
  one), or the title of the page, \<^verbatim>\<open>None\<close> when it has none. \<open>events\<close> are the events of
  the markup. A fetch that fails is \<open>Inl\<close> of the exception of \<^verbatim>\<open>requests.get\<close> in place
  of the page.
\<close>

record page =
  title :: "error + string option"
  events :: "event list"

text \<open>
  Lines 67 to 72, in their order: the fetch, the title, the empty list, the feed.
  \<^verbatim>\<open>process\<close> assigns \<^verbatim>\<open>name\<close> and \<^verbatim>\<open>rewards\<close> and nothing else: the two flags and the
  captured fields are those the last call left.
\<close>

definition process ::
  "(string \<Rightarrow> string) \<Rightarrow> parser \<Rightarrow> error + page \<Rightarrow> error + reward list \<times> parser" where
  "process unescape p res =
     and_then res
       (\<lambda>pg. and_then (title pg)
          (\<lambda>t. and_then (feed unescape (p\<lparr>name := t, rewards := []\<rparr>) (events pg))
             (\<lambda>p1. Inr (rewards p1, p1))))"

text \<open>
  Lines 187 and 189: the first extraction, on a parser that \<^verbatim>\<open>KickstarterHTMLParser()\<close>
  has just made.
\<close>

definition extract_page :: "(string \<Rightarrow> string) \<Rightarrow> page \<Rightarrow> error + reward list" where
  "extract_page unescape pg = and_then (process unescape init (Inr pg)) (\<lambda>(rs, p). Inr rs)"

section \<open>What the script prints, sends and returns\<close>

text \<open>
  The visible effects, in order: a line printed, the time-stamped line of line 217 (the
  clock is not modelled), the waiting line of line 226 with the delay it shows, a message
  posted to the notification service with its URL, a pause in seconds.
\<close>

datatype effect =
    Print string
  | PrintTime
  | PrintWaiting int
  | Post string string
  | Sleep int

text \<open>
  How a piece of the script ends: it goes on with a value, the process exits with a
  status (\<^verbatim>\<open>sys.exit\<close>), or an exception leaves it. At the top level an exception that
  nothing catches ends the process with a traceback.
\<close>

datatype 'a result = Go 'a | Exited nat | Raised error

definition seq ::
  "effect list \<times> 'a result \<Rightarrow> ('a \<Rightarrow> effect list \<times> 'b result) \<Rightarrow> effect list \<times> 'b result" where
  "seq m f =
     (case m of
        (out, Go x) \<Rightarrow> (case f x of (out1, r) \<Rightarrow> (out @ out1, r))
      | (out, Exited n) \<Rightarrow> (out, Exited n)
      | (out, Raised e) \<Rightarrow> (out, Raised e))"

definition silent :: "error + 'a \<Rightarrow> effect list \<times> 'a result" where
  "silent m = (case m of Inl e \<Rightarrow> ([], Raised e) | Inr x \<Rightarrow> ([], Go x))"

text \<open>
  Lines 115 to 122. The first argument is what \<^verbatim>\<open>requests.post\<close> does: the exception it
  raises, or \<open>None\<close> when it returns. Nothing in \<^verbatim>\<open>push_message\<close> catches the exception.
\<close>

definition push_message :: "error option \<Rightarrow> string \<Rightarrow> string \<Rightarrow> effect list \<times> unit result" where
  "push_message post message url =
     (case post of Some e \<Rightarrow> ([], Raised e) | None \<Rightarrow> ([Post message url], Go ()))"

text \<open>
  \<^verbatim>\<open>time.sleep\<close> raises a ValueError on a negative length, and an OverflowError on a
  length whose nanoseconds do not fit the 64 bits of the interpreter's clock: above
  9223372036 seconds.
\<close>

definition sleep_limit :: int where
  "sleep_limit = 9223372036"

definition sleep :: "int \<Rightarrow> effect list \<times> unit result" where
  "sleep n =
     (if n < 0 then ([], Raised ValueError)
      else if sleep_limit < n then ([], Raised OverflowError)
      else ([Sleep n], Go ()))"

section \<open>Selection at startup\<close>

text \<open>
  Lines 124 to 144. With one reward the function prints two lines and returns the list.
  Otherwise line 135 evaluates the name \<^verbatim>\<open>xrange\<close>, which neither the module nor the
  built-ins of Python 3 bind: a NameError, raised outside the \<^verbatim>\<open>try\<close> of lines 139 to 144,
  leaves the function, and lines 136 to 144 never run.
\<close>

definition pledge_menu :: "reward list \<Rightarrow> effect list \<times> reward list result" where
  "pledge_menu rwds =
     (if length rwds = 1 then
        ([Print ''Automatically selecting the only limited award available:'',
          Print (fst (hd rwds) @ '' '' @ take 74 (snd (snd (hd rwds))))],
         Go rwds)
      else ([], Raised (NameError ''xrange'')))"

text \<open>
  Line 185 makes \<^verbatim>\<open>pledges\<close> the iterator \<^verbatim>\<open>map(float, args[1:])\<close>: no argument is
  converted before line 196 asks for it. \<^verbatim>\<open>float\<close> is a parameter: \<open>None\<close> where it raises
  a ValueError. A \<^verbatim>\<open>str\<close> and a \<^verbatim>\<open>float\<close> never compare equal.
\<close>

definition str_eq_float :: "string \<Rightarrow> 'f \<Rightarrow> bool" where
  "str_eq_float s x = False"

text \<open>
  \<^verbatim>\<open>r[0] in pledges\<close> on the iterator: it takes arguments from the iterator, converts each
  and compares it with \<^verbatim>\<open>r[0]\<close>, until one is equal or none is left. The result holds the
  arguments still in the iterator.
\<close>

fun in_pledges ::
  "(string \<Rightarrow> 'f option) \<Rightarrow> string \<Rightarrow> string list \<Rightarrow> error + bool \<times> string list" where
  "in_pledges pyfloat x [] = Inr (False, [])"
| "in_pledges pyfloat x (a # as) =
     (case pyfloat a of
        None \<Rightarrow> Inl ValueError
      | Some y \<Rightarrow> if str_eq_float x y then Inr (True, as) else in_pledges pyfloat x as)"

text \<open>Line 196: \<^verbatim>\<open>[r for r in rewards if r[0] in pledges]\<close>.\<close>

fun select_by_pledges ::
  "(string \<Rightarrow> 'f option) \<Rightarrow> reward list \<Rightarrow> string list \<Rightarrow> error + reward list" where
  "select_by_pledges pyfloat [] it = Inr []"
| "select_by_pledges pyfloat (r # rs) it =
     and_then (in_pledges pyfloat (fst r) it)
       (\<lambda>(b, it1). and_then (select_by_pledges pyfloat rs it1)
          (\<lambda>sel. Inr (if b then r # sel else sel)))"

section \<open>The watch loop\<close>

text \<open>
  Line 216: the first selected reward whose ID is not among the IDs of the rewards of the
  last extraction.
\<close>

definition first_available :: "reward list \<Rightarrow> reward list \<Rightarrow> reward option" where
  "first_available selected rwds =
     find (\<lambda>s. fst (snd s) \<notin> set (map (\<lambda>r. fst (snd r)) rwds)) selected"

text \<open>
  Line 218 calls the name \<^verbatim>\<open>string\<close>. The module binds no such name (it imports no
  module \<^verbatim>\<open>string\<close> and defines no function of that name) and Python 3 has no such
  built-in: the call raises a NameError.
\<close>

definition call_string :: "string \<Rightarrow> error + string" where
  "call_string x = Inl (NameError ''string'')"

text \<open>
  Lines 220 to 224: the removal of the reward found, and on an empty list the pause and
  the exit. \<open>Go\<close> is the \<^verbatim>\<open>break\<close> of line 224, with the new list.
\<close>

definition remove_found :: "reward list \<Rightarrow> reward \<Rightarrow> effect list \<times> reward list result" where
  "remove_found selected s =
     (let selected1 = filter (\<lambda>x. x \<noteq> s) selected in
      if selected1 = [] then seq (sleep 10) (\<lambda>u. ([], Exited 0))
      else ([], Go selected1))"

text \<open>Lines 217 to 224, for the reward \<open>s\<close> that line 216 found.\<close>

definition available ::
  "error option \<Rightarrow> string \<Rightarrow> reward list \<Rightarrow> reward \<Rightarrow> effect list \<times> reward list result" where
  "available post url selected s =
     seq ([PrintTime], Go ())
       (\<lambda>u. seq (silent (call_string (snd (snd s))))
          (\<lambda>t. seq ([Print t], Go ())
             (\<lambda>u. seq (push_message post ''Kickstarter Reward available!'' url)
                (\<lambda>u. remove_found selected s))))"

text \<open>
  What one pass of the loop meets: what \<^verbatim>\<open>requests.post\<close> would do, and the answer to
  the fetch of line 229.
\<close>

record cycle =
  post_result :: "error option"
  get_result :: "error + page"

text \<open>
  Lines 215 to 229, one pass of \<^verbatim>\<open>while True\<close>. The state is \<^verbatim>\<open>selected\<close>, \<^verbatim>\<open>rewards\<close>
  and the parser object \<^verbatim>\<open>ks\<close>. The loop has no \<^verbatim>\<open>try\<close>.
\<close>

definition watch_cycle ::
  "(string \<Rightarrow> string) \<Rightarrow> bool \<Rightarrow> int \<Rightarrow> string \<Rightarrow> cycle \<Rightarrow>
   reward list \<times> reward list \<times> parser \<Rightarrow>
   effect list \<times> (reward list \<times> reward list \<times> parser) result" where
  "watch_cycle unescape verbose delay url c st =
     (case st of (selected, rwds, ks) \<Rightarrow>
        seq (case first_available selected rwds of
               None \<Rightarrow> ([], Go selected)
             | Some s \<Rightarrow> available (post_result c) url selected s)
          (\<lambda>selected1. seq (if verbose then [PrintWaiting delay] else [], Go ())
             (\<lambda>u. seq (sleep (60 * delay))
                (\<lambda>u. seq (silent (process unescape ks (get_result c)))
                   (\<lambda>(rwds1, ks1). ([], Go (selected1, rwds1, ks1)))))))"

text \<open>
  The loop over the passes that the list describes. \<open>Go\<close> at the end of the list: the
  loop is still running.
\<close>

fun watch_loop ::
  "(string \<Rightarrow> string) \<Rightarrow> bool \<Rightarrow> int \<Rightarrow> string \<Rightarrow> cycle list \<Rightarrow>
   reward list \<times> reward list \<times> parser \<Rightarrow>
   effect list \<times> (reward list \<times> reward list \<times> parser) result" where
  "watch_loop unescape verbose delay url [] st = ([], Go st)"
| "watch_loop unescape verbose delay url (c # cs) st =
     seq (watch_cycle unescape verbose delay url c st)
       (\<lambda>st1. watch_loop unescape verbose delay url cs st1)"

section \<open>The script\<close>

text \<open>
  The command line after \<^verbatim>\<open>parse_args\<close>: the length of \<^verbatim>\<open>sys.argv\<close> (options included),
  the positional arguments, and the two options the loop reads.
\<close>

record cmdline =
  argc :: nat
  args :: "string list"
  opt_verbose :: bool
  opt_delay :: int

text \<open>
  Lines 206 to 211. \<^verbatim>\<open>ks.name\<close> is \<^verbatim>\<open>None\<close> for a page without a title, and \<^verbatim>\<open>.strip()\<close>
  then raises an AttributeError.
\<close>

definition start_watching ::
  "error option \<Rightarrow> string \<Rightarrow> reward list \<Rightarrow> parser \<Rightarrow> effect list \<times> unit result" where
  "start_watching post url selected ks =
     seq (Print (CHR 0x0A # ''Selected rewards:'') # map (\<lambda>s. Print (snd (snd s))) selected
            @ [Print (CHR 0x0A # ''Sending test push to make sure everything is OK'')], Go ())
       (\<lambda>u. seq (silent (case name ks of
                            None \<Rightarrow> Inl (AttributeError ''strip'')
                          | Some n \<Rightarrow> Inr (''Start watching: '' @ strip n)))
          (\<lambda>message. push_message post message url))"

text \<open>
  Lines 162 to 229. \<^verbatim>\<open>parser.error\<close> exits with status 2. \<open>config_read\<close> is what
  \<^verbatim>\<open>config.read\<close> of line 170 does, outside the \<^verbatim>\<open>try\<close> of line 171: the exception it
  raises on a malformed file, or \<open>None\<close> when it returns (as it does for a file that is
  absent or well formed). The credentials that lines 171 to 175 assign change no step of
  the script. \<^verbatim>\<open>pledges\<close> is assigned when \<^verbatim>\<open>sys.argv\<close> has more than two entries, and an
  iterator is true whatever it holds.
\<close>

definition main ::
  "(string \<Rightarrow> 'f option) \<Rightarrow> (string \<Rightarrow> string) \<Rightarrow> cmdline \<Rightarrow> error option \<Rightarrow>
   error + page \<Rightarrow> error option \<Rightarrow> cycle list \<Rightarrow>
   effect list \<times> (reward list \<times> reward list \<times> parser) result" where
  "main pyfloat unescape cl config_read first_get first_post cs =
     (if length (args cl) < 1 then ([], Exited 2)
      else
        let url = takeWhile (\<lambda>c. c \<noteq> CHR ''?'') (hd (args cl)) @ ''/pledge/new'';
            pledges = (if argc cl > 2 then Some (tl (args cl)) else None)
        in seq (silent (case config_read of Some e \<Rightarrow> Inl e | None \<Rightarrow> Inr ()))
          (\<lambda>u. seq (silent (process unescape init first_get))
             (\<lambda>(rwds, ks).
                if rwds = [] then
                  ([Print ''No unavailable limited rewards for this Kickstarter''], Exited 0)
                else
                  seq (case pledges of
                         Some it \<Rightarrow> silent (select_by_pledges pyfloat rwds it)
                       | None \<Rightarrow> pledge_menu rwds)
                    (\<lambda>selected.
                       if selected = [] then ([Print ''No reward selected.''], Exited 0)
                       else
                         seq (start_watching first_post url selected ks)
                           (\<lambda>u. seq ([Print (CHR 0x0A # ''Watching...'')], Go ())
                              (\<lambda>u. watch_loop unescape (opt_verbose cl) (opt_delay cl) url cs
                                     (selected, rwds, ks)))))))"

section \<open>Inputs of the examples and predicates of the statements\<close>

text \<open>
  \<^verbatim>\<open>html.unescape\<close> returns a string without an ampersand as it is.
\<close>

definition keeps_plain_text :: "(string \<Rightarrow> string) \<Rightarrow> bool" where
  "keeps_plain_text unescape = (\<forall>s. CHR ''&'' \<notin> set s \<longrightarrow> unescape s = s)"

text \<open>
  A start tag \<^verbatim>\<open>li\<close> that line 94 does not pass over: its \<^verbatim>\<open>class\<close> attribute holds the
  marker \<^verbatim>\<open>pledge--all-gone\<close>, or has no value.
\<close>

fun opens_block :: "event \<Rightarrow> bool" where
  "opens_block (StartTag tag attributes) =
     (tag = ''li'' \<and>
      (case map_of (rev attributes) ''class'' of
         None \<Rightarrow> False
       | Some None \<Rightarrow> True
       | Some (Some c) \<Rightarrow> contains ''pledge--all-gone'' c))"
| "opens_block (StartEndTag tag attributes) =
     (tag = ''li'' \<and>
      (case map_of (rev attributes) ''class'' of
         None \<Rightarrow> False
       | Some None \<Rightarrow> True
       | Some (Some c) \<Rightarrow> contains ''pledge--all-gone'' c))"
| "opens_block (EndTag tag) = False"
| "opens_block (Data data) = False"

text \<open>
  A description as the spec wants it: no white space at either end, and no white space
  inside but single blanks.
\<close>

fun tidy :: "string \<Rightarrow> bool" where
  "tidy [] = True"
| "tidy [c] = (\<not> isspace c)"
| "tidy (c # d # cs) =
     (\<not> isspace c \<and> (if isspace d then d = CHR '' '' \<and> cs \<noteq> [] \<and> tidy cs else tidy (d # cs)))"

text \<open>
  The events of one sold-out block in the shape of the example of the spec: the container
  with the marker class, the selector with its amount and its ID, and the title with
  the text \<open>d1\<close>, the text \<open>d2\<close> inside \<^verbatim>\<open><b>\<close>, and the text \<open>d3\<close>:
  \<^verbatim>\<open><li class="pledge--all-gone"><input class="pledge__radio" title=amount id=rid/>\<close>
  \<^verbatim>\<open><h3 class="pledge__title">d1<b>d2</b>d3</h3></li>\<close>.
\<close>

definition titled_block :: "string \<Rightarrow> string \<Rightarrow> string \<Rightarrow> string \<Rightarrow> string \<Rightarrow> event list" where
  "titled_block amount rid d1 d2 d3 =
     [StartTag ''li'' [(''class'', Some ''pledge--all-gone'')],
      StartEndTag ''input''
        [(''class'', Some ''pledge__radio''), (''title'', Some amount), (''id'', Some rid)],
      StartTag ''h3'' [(''class'', Some ''pledge__title'')],
      Data d1,
      StartTag ''b'' [],
      Data d2,
      EndTag ''b'',
      Data d3,
      EndTag ''h3'',
      EndTag ''li'']"

text \<open>
  What stands around the block in the example page: before it a heading, a list and a
  tier that is still available (a container \<^verbatim>\<open>li\<close> of another class, with a selector and a
  title of its own), after it the end of the list.
\<close>

definition page_before :: "event list" where
  "page_before =
     [StartTag ''h1'' [(''class'', Some ''title'')],
      Data ''Pledges'',
      EndTag ''h1'',
      StartTag ''ul'' [],
      StartTag ''li'' [(''class'', Some ''pledge--available'')],
      StartEndTag ''input''
        [(''class'', Some ''pledge__radio''), (''title'', Some ''$50.00''),
         (''id'', Some ''reward-41'')],
      StartTag ''h3'' [(''class'', Some ''pledge__title'')],
      Data ''Sticker'',
      EndTag ''h3'',
      EndTag ''li'']"

definition page_after :: "event list" where
  "page_after = [Data [CHR 0x0A], EndTag ''ul'']"

definition poster_page :: page where
  "poster_page = \<lparr>title = Inr (Some ''Poster campaign''),
     events =
       page_before
       @ titled_block ''$75.00'' ''reward-42'' ''Limited  '' ''Edition'' ''  Poster''
       @ page_after\<rparr>"

text \<open>The events of one sold-out tier with its amount, its ID and its title.\<close>

definition tier :: "string \<Rightarrow> string \<Rightarrow> string \<Rightarrow> event list" where
  "tier amount rid heading =
     [StartTag ''li'' [(''class'', Some ''pledge--all-gone'')],
      StartEndTag ''input''
        [(''class'', Some ''pledge__radio''), (''title'', Some amount), (''id'', Some rid)],
      StartTag ''h3'' [(''class'', Some ''pledge__title'')],
      Data heading,
      EndTag ''h3'',
      EndTag ''li'']"

definition two_tier_page :: page where
  "two_tier_page = \<lparr>title = Inr (Some ''Campaign''),
     events = tier ''$50.00'' ''reward-50'' ''Sticker'' @ tier ''$75.00'' ''reward-75'' ''Poster''\<rparr>"

text \<open>The events of \<^verbatim>\<open><li class="pledge--all-gone"></li>\<close>: a block without a selector.\<close>

definition bare_block_page :: page where
  "bare_block_page = \<lparr>title = Inr (Some ''Campaign''),
     events = [StartTag ''li'' [(''class'', Some ''pledge--all-gone'')], EndTag ''li'']\<rparr>"

text \<open>The events of \<^verbatim>\<open><li class>\<close>: no marker class anywhere.\<close>

definition valueless_class_page :: page where
  "valueless_class_page = \<lparr>title = Inr (Some ''Campaign''),
     events = [StartTag ''li'' [(''class'', None)]]\<rparr>"

text \<open>
  The events of
  \<^verbatim>\<open></li><li class="pledge--all-gone"><input class="pledge__radio" title="$5" id="r1">\<close>:
  the markup ends inside the block.
\<close>

definition leftover_page :: page where
  "leftover_page = \<lparr>title = Inr (Some ''Campaign''),
     events =
       [EndTag ''li'',
        StartTag ''li'' [(''class'', Some ''pledge--all-gone'')],
        StartTag ''input''
          [(''class'', Some ''pledge__radio''), (''title'', Some ''$5''), (''id'', Some ''r1'')]]\<rparr>"

text \<open>
  The events of a block whose selector has no \<^verbatim>\<open>title\<close> attribute:
  \<^verbatim>\<open><li class="pledge--all-gone"><input class="pledge__radio" id="reward-42"/></li>\<close>.
\<close>

definition untitled_selector :: "(string \<times> string option) list" where
  "untitled_selector = [(''class'', Some ''pledge__radio''), (''id'', Some ''reward-42'')]"

definition untitled_page :: page where
  "untitled_page = \<lparr>title = Inr None,
     events =
       [StartTag ''li'' [(''class'', Some ''pledge--all-gone'')],
        StartEndTag ''input'' untitled_selector,
        EndTag ''li'']\<rparr>"

text \<open>Three rewards with the IDs A, B and C.\<close>

definition reward_A :: reward where
  "reward_A = (''$10'', Some ''A'', ''Tier A'')"

definition reward_B :: reward where
  "reward_B = (''$20'', Some ''B'', ''Tier B'')"

definition reward_C :: reward where
  "reward_C = (''$30'', Some ''C'', ''Tier C'')"



text \<open>
  What follows line 224 in a pass and in the loop, as far as the example of the exit needs
  it: the pause of line 227 before the next fetch.
\<close>

definition next_poll :: "reward list \<Rightarrow> effect list \<times> reward list result" where
  "next_poll selected = seq (sleep 60) (\<lambda>u. ([], Go selected))"

text \<open>
  Command lines: the URL alone, the URL with the amount \<^verbatim>\<open>$75.00\<close>, the URL with the
  amount \<^verbatim>\<open>75.00\<close>, the URL after \<^verbatim>\<open>-v\<close>.
\<close>

definition url_only :: cmdline where
  "url_only = \<lparr>argc = 2, args = [''https://example.org/p''],
     opt_verbose = False, opt_delay = 1\<rparr>"

definition url_and_price :: cmdline where
  "url_and_price = \<lparr>argc = 3, args = [''https://example.org/p'', ''$75.00''],
     opt_verbose = False, opt_delay = 1\<rparr>"

definition url_and_amount :: cmdline where
  "url_and_amount = \<lparr>argc = 3, args = [''https://example.org/p'', ''75.00''],
     opt_verbose = False, opt_delay = 1\<rparr>"

definition verbose_url :: cmdline where
  "verbose_url = \<lparr>argc = 3, args = [''https://example.org/p''],
     opt_verbose = True, opt_delay = 1\<rparr>"

section \<open>The extractor\<close>

lemmas parse_defs =
  extract_page_def process_def init_def and_then_def handle_starttag_def handle_endtag_def
  handle_data_def class_has_def capture_def emit_def ascii_def py_split_def isspace_def Let_def

lemmas run_defs =
  main_def seq_def silent_def pledge_menu_def watch_cycle_def first_available_def
  available_def call_string_def remove_found_def push_message_def sleep_def sleep_limit_def
  start_watching_def strip_def

lemma feed_append:
  "feed u p (xs @ ys) = and_then (feed u p xs) (\<lambda>p1. feed u p1 ys)"
  by (induction xs arbitrary: p) (auto simp: and_then_def split: sum.splits)

lemma extract_two_tiers:
  "extract_page (\<lambda>s. s) two_tier_page =
     Inr [(''$50.00'', Some ''reward-50'', ''Sticker''),
          (''$75.00'', Some ''reward-75'', ''Poster'')]"
  by (simp add: two_tier_page_def tier_def parse_defs)

text \<open>
  Outside a block, the events that open no block leave the parser as it is.
\<close>

lemma starttag_outside:
  "\<not> in_li_block p \<Longrightarrow> \<not> opens_block (StartTag tag attributes) \<Longrightarrow>
   handle_starttag p tag attributes = Inr p"
  by (auto simp: handle_starttag_def and_then_def class_has_def Let_def split: option.splits)

lemma endtag_outside:
  "\<not> in_li_block p \<Longrightarrow> \<not> in_desc_block p \<Longrightarrow> handle_endtag p tag = Inr p"
  by (auto simp: handle_endtag_def and_then_def)

lemma opens_block_startend:
  "opens_block (StartEndTag tag attributes) = opens_block (StartTag tag attributes)"
  by simp

lemma dispatch_outside:
  assumes "\<not> in_li_block p" and "\<not> in_desc_block p" and "\<not> opens_block ev"
  shows "dispatch unescape p ev = Inr p"
proof (cases ev)
  case (StartTag tag attributes)
  with assms show ?thesis
    by (simp add: starttag_outside del: opens_block.simps)
next
  case (StartEndTag tag attributes)
  with assms have "handle_starttag p tag attributes = Inr p"
    by (simp add: starttag_outside opens_block_startend del: opens_block.simps)
  with assms StartEndTag show ?thesis
    by (simp add: and_then_def endtag_outside)
next
  case (EndTag tag)
  with assms show ?thesis
    by (simp add: endtag_outside)
next
  case (Data data)
  with assms show ?thesis
    by (simp add: handle_data_def)
qed

lemma feed_outside:
  "\<not> in_li_block p \<Longrightarrow> \<not> in_desc_block p \<Longrightarrow> \<not> list_ex opens_block evs \<Longrightarrow>
   feed unescape p evs = Inr p"
  by (induction evs) (auto simp: dispatch_outside and_then_def)




text \<open>
  The record of the example for every decoder that returns text without an ampersand as
  it is.
\<close>

lemma extract_poster_example:
  assumes "keeps_plain_text unescape"
  shows "extract_page unescape poster_page =
           Inr [(''$75.00'', Some ''reward-42'', ''Limited Edition Poster'')]"
  using assms
  by (simp add: keeps_plain_text_def poster_page_def page_before_def page_after_def
      titled_block_def parse_defs)

text \<open>
  What \<^verbatim>\<open>' '.join(s.split())\<close> returns is tidy: it neither starts nor ends with white space,
  and its only white space is single blanks.
\<close>

lemma isspace_blank: "isspace (CHR '' '')"
  by (simp add: isspace_def)

lemma tidy_word:
  "w \<noteq> [] \<Longrightarrow> list_all (\<lambda>c. \<not> isspace c) w \<Longrightarrow> tidy w"
  by (induction w rule: tidy.induct) auto

lemma tidy_word_blank:
  "w \<noteq> [] \<Longrightarrow> list_all (\<lambda>c. \<not> isspace c) w \<Longrightarrow> r \<noteq> [] \<Longrightarrow> tidy r \<Longrightarrow>
   tidy (w @ CHR '' '' # r)"
  by (induction w rule: tidy.induct) (auto simp: isspace_blank)

lemma split_run_words:
  "list_all (\<lambda>c. \<not> isspace c) w \<Longrightarrow>
   list_all (\<lambda>x. x \<noteq> [] \<and> list_all (\<lambda>c. \<not> isspace c) x) (split_run w s)"
  by (induction s arbitrary: w) auto

lemma py_join_words:
  "list_all (\<lambda>x. x \<noteq> [] \<and> list_all (\<lambda>c. \<not> isspace c) x) ws \<Longrightarrow>
   tidy (py_join ws) \<and> (ws \<noteq> [] \<longrightarrow> py_join ws \<noteq> [])"
  by (induction ws rule: py_join.induct) (auto simp: tidy_word tidy_word_blank)

lemma description_tidy: "tidy (py_join (py_split s))"
  using split_run_words [of "[]" s] py_join_words by (simp add: py_split_def)

lemma starttag_missing_attribute:
  assumes "in_li_block p"
    and "map_of (rev attributes) ''class'' = Some (Some c)"
    and "contains ''pledge__radio'' c"
    and "map_of (rev attributes) ''title'' = None \<or> map_of (rev attributes) ''id'' = None"
  shows "handle_starttag p ''input'' attributes =
           Inl (case map_of (rev attributes) ''title'' of
                  None \<Rightarrow> KeyError ''title''
                | Some None \<Rightarrow> AttributeError ''encode''
                | Some (Some t) \<Rightarrow> KeyError ''id'')"
  using assms
  by (auto simp: handle_starttag_def and_then_def class_has_def capture_def Let_def
      split: option.splits)

text \<open>
  Claim C10. A selector (\<^verbatim>\<open>input\<close> whose class holds \<^verbatim>\<open>pledge__radio\<close>) that stands
  inside a sold-out block and has no \<^verbatim>\<open>title\<close> attribute, or no \<^verbatim>\<open>id\<close> attribute, makes
  the extraction raise on that tag: the KeyError of the missing \<^verbatim>\<open>title\<close>, else the
  KeyError of the missing \<^verbatim>\<open>id\<close> (the AttributeError of \<^verbatim>\<open>.encode\<close> comes first when the
  \<^verbatim>\<open>title\<close> is there without a value). Nothing of the omission is tolerated, and the
  exception leaves \<^verbatim>\<open>process\<close>, whatever follows the tag. The page is one that line 69
  has read (it holds an element, the selector).
\<close>

theorem selector_without_attribute_raises:
  assumes "title pg = Inr t"
    and "events pg = before @ ev # after"
    and "ev = StartTag ''input'' attributes \<or> ev = StartEndTag ''input'' attributes"
    and "feed unescape (ks\<lparr>name := t, rewards := []\<rparr>) before = Inr p"
    and "in_li_block p"
    and "map_of (rev attributes) ''class'' = Some (Some c)"
    and "contains ''pledge__radio'' c"
    and "map_of (rev attributes) ''title'' = None \<or> map_of (rev attributes) ''id'' = None"
  shows "process unescape ks (Inr pg) =
           Inl (case map_of (rev attributes) ''title'' of
                  None \<Rightarrow> KeyError ''title''
                | Some None \<Rightarrow> AttributeError ''encode''
                | Some (Some t) \<Rightarrow> KeyError ''id'')"
proof -
  let ?e = "case map_of (rev attributes) ''title'' of
              None \<Rightarrow> KeyError ''title''
            | Some None \<Rightarrow> AttributeError ''encode''
            | Some (Some t) \<Rightarrow> KeyError ''id''"
  have start: "handle_starttag p ''input'' attributes = Inl ?e"
    using assms(5-8) by (rule starttag_missing_attribute)
  have "dispatch unescape p ev = Inl ?e"
    using assms(3) start by (auto simp: and_then_def)
  then have "feed unescape (ks\<lparr>name := t, rewards := []\<rparr>) (events pg) = Inl ?e"
    using assms(2,4) by (simp add: feed_append and_then_def)
  then show ?thesis
    using assms(1) by (simp add: process_def and_then_def)
qed

theorem selector_without_attribute_raises_witness:
  "process (\<lambda>s. s) init (Inr untitled_page) = Inl (KeyError ''title'')"
  using selector_without_attribute_raises
    [of untitled_page None "[StartTag ''li'' [(''class'', Some ''pledge--all-gone'')]]"
        "StartEndTag ''input'' untitled_selector" "[EndTag ''li'']" untitled_selector
        "\<lambda>s. s" init "init\<lparr>name := None, in_li_block := True, description := Some []\<rparr>"
        "''pledge__radio''"]
  by (simp add: untitled_page_def untitled_selector_def init_def and_then_def
      handle_starttag_def class_has_def Let_def)

text \<open>
  Claim C5, on which the code fails. A sold-out block without a selector should give a
  record with an empty price and an empty ID. On a new parser \<^verbatim>\<open>handle_endtag\<close> reads
  \<^verbatim>\<open>self.value\<close>, which no line has assigned (\<^verbatim>\<open>__init__\<close> does not, and the start of a
  block resets the description only): the extraction raises an AttributeError and gives
  no record.
\<close>

theorem block_without_selector_raises:
  "extract_page unescape bare_block_page = Inl (AttributeError ''value'')"
  by (simp add: bare_block_page_def parse_defs)

text \<open>
  After a block with a selector, a block without one repeats the price and the ID of the
  block before it.
\<close>

lemma block_without_selector_repeats:
  "extract_page (\<lambda>s. s)
     \<lparr>title = Inr None,
      events = tier ''$50.00'' ''reward-50'' ''Sticker'' @ events bare_block_page\<rparr> =
   Inr [(''$50.00'', Some ''reward-50'', ''Sticker''), (''$50.00'', Some ''reward-50'', [])]"
  by (simp add: bare_block_page_def tier_def parse_defs)

text \<open>
  Claim C6, on which the code fails. Two calls of \<^verbatim>\<open>process\<close> on the same markup should
  give the same records. \<^verbatim>\<open>process\<close> empties \<^verbatim>\<open>rewards\<close> and leaves the flags and the
  captured fields as the call before left them: on markup that ends inside a block, the
  first call on a new parser gives no record, and the second call, on the parser the
  first one left, gives one.
\<close>

theorem second_call_differs:
  "(case process unescape init (Inr leftover_page) of
      Inl e \<Rightarrow> False
    | Inr (first_records, ks) \<Rightarrow>
        (case process unescape ks (Inr leftover_page) of
           Inl e \<Rightarrow> False
         | Inr (second_records, ks1) \<Rightarrow>
             first_records = [] \<and> second_records = [(''$5'', Some ''r1'', [])]))"
  by (simp add: leftover_page_def parse_defs)

text \<open>
  Claim C7, on which the code fails. Markup without the marker class should give the empty
  sequence. For \<^verbatim>\<open><li class>\<close>, which holds no marker, line 94 tests the marker in
  \<^verbatim>\<open>None\<close>: the extraction raises a TypeError.
\<close>

theorem valueless_class_raises:
  "extract_page unescape valueless_class_page = Inl TypeError"
  by (simp add: valueless_class_page_def parse_defs)

text \<open>
  What holds of the first part of C7: markup that line 69 has read and that holds no
  event that opens a block gives the empty sequence on a new parser.
\<close>

lemma extract_without_block:
  "title pg = Inr t \<Longrightarrow> \<not> list_ex opens_block (events pg) \<Longrightarrow>
   extract_page unescape pg = Inr []"
  by (simp add: extract_page_def process_def and_then_def feed_outside init_def)

text \<open>A body without an element: line 69 raises, and no event is fed.\<close>

lemma extract_unparsed:
  "title pg = Inl e \<Longrightarrow> extract_page unescape pg = Inl e"
  by (simp add: extract_page_def process_def and_then_def)

section \<open>Selection at startup\<close>

text \<open>
  The second part of C7, which holds: when the first extraction gives no reward, the
  script prints that no limited reward is unavailable and exits with status 0.
\<close>

lemma main_nothing_to_watch:
  "args cl \<noteq> [] \<Longrightarrow> process unescape init first_get = Inr ([], ks) \<Longrightarrow>
   main pyfloat unescape cl None first_get first_post cs =
     ([Print ''No unavailable limited rewards for this Kickstarter''], Exited 0)"
  by (simp add: main_def seq_def silent_def Let_def)

text \<open>A malformed configuration file ends the script before the first fetch.\<close>

lemma main_malformed_config:
  "args cl \<noteq> [] \<Longrightarrow>
   main pyfloat unescape cl (Some e) first_get first_post cs = ([], Raised e)"
  by (simp add: main_def seq_def silent_def Let_def)

lemma in_pledges_never:
  "in_pledges pyfloat x it = Inr (b, it1) \<Longrightarrow> \<not> b \<and> it1 = []"
  by (induction it) (auto simp: str_eq_float_def split: option.splits)

lemma in_pledges_error:
  "in_pledges pyfloat x it = Inl e \<Longrightarrow> e = ValueError"
  by (induction it) (auto simp: str_eq_float_def split: option.splits)

text \<open>
  Line 196 selects no reward, whatever the amounts and the rewards are: a record's price is
  a \<^verbatim>\<open>str\<close> and the amounts are \<^verbatim>\<open>float\<close>s.
\<close>

lemma select_by_pledges_selects_nothing:
  "select_by_pledges pyfloat rs it = Inr sel \<Longrightarrow> sel = []"
proof (induction rs arbitrary: it sel)
  case Nil
  then show ?case by simp
next
  case (Cons r rs)
  then show ?case
    by (auto simp: and_then_def split: sum.splits dest: in_pledges_never)
qed

lemma select_by_pledges_error:
  "select_by_pledges pyfloat rs it = Inl e \<Longrightarrow> e = ValueError"
proof (induction rs arbitrary: it)
  case Nil
  then show ?case by simp
next
  case (Cons r rs)
  then show ?case
    by (auto simp: and_then_def split: sum.splits prod.splits dest: in_pledges_error)
qed

text \<open>
  Claim C2, on which the code fails. With the tiers priced \<^verbatim>\<open>$50.00\<close> and \<^verbatim>\<open>$75.00\<close> and
  the amount \<^verbatim>\<open>$75.00\<close> on the command line, which is the raw price token of the second
  tier, the selection should be the \<^verbatim>\<open>$75.00\<close> record. Line 196 hands the argument to
  \<^verbatim>\<open>float\<close>: where \<^verbatim>\<open>float\<close> refuses it (as Python's does, for the dollar sign) the
  ValueError ends the script, and were it converted, the number would equal no price
  token, and the script would print that no reward is selected and exit. In neither case
  is the record selected and watched.
\<close>

theorem price_token_selects_nothing:
  "main pyfloat (\<lambda>s. s) url_and_price None (Inr two_tier_page) first_post cs =
     (case pyfloat ''$75.00'' of
        None \<Rightarrow> ([], Raised ValueError)
      | Some y \<Rightarrow> ([Print ''No reward selected.''], Exited 0))"
  by (simp add: url_and_price_def two_tier_page_def tier_def main_def seq_def silent_def
      str_eq_float_def parse_defs split: option.splits)

text \<open>The amount written as a number, \<^verbatim>\<open>75.00\<close>, selects nothing either.\<close>

lemma amount_selects_nothing:
  "main pyfloat (\<lambda>s. s) url_and_amount None (Inr two_tier_page) first_post cs =
     (case pyfloat ''75.00'' of
        None \<Rightarrow> ([], Raised ValueError)
      | Some y \<Rightarrow> ([Print ''No reward selected.''], Exited 0))"
  by (simp add: url_and_amount_def two_tier_page_def tier_def main_def seq_def silent_def
      str_eq_float_def parse_defs split: option.splits)

text \<open>The part of C9 that holds: \<^verbatim>\<open>pledge_menu\<close> returns a single reward as the selection.\<close>

lemma pledge_menu_single:
  "pledge_menu [r] =
     ([Print ''Automatically selecting the only limited award available:'',
       Print (fst r @ '' '' @ take 74 (snd (snd r)))], Go [r])"
  by (simp add: pledge_menu_def)

text \<open>
  Claim C9, on which the code fails. With no amount on the command line and two
  candidates, the list should be shown and a selection read. The script shows nothing and
  reads nothing: \<^verbatim>\<open>xrange\<close> of line 135 is not a name of Python 3, and the NameError ends
  the script.
\<close>

theorem menu_of_two_raises:
  "main pyfloat (\<lambda>s. s) url_only None (Inr two_tier_page) first_post cs =
     ([], Raised (NameError ''xrange''))"
  by (simp add: url_only_def two_tier_page_def tier_def main_def seq_def silent_def
      pledge_menu_def parse_defs)

text \<open>
  A second input on which C9 fails: after an option (\<^verbatim>\<open>-v\<close>), \<^verbatim>\<open>sys.argv\<close> has three
  entries, line 185 assigns the empty iterator, which is true, and the only candidate is
  not selected.
\<close>

lemma option_without_amount_selects_nothing:
  "main pyfloat (\<lambda>s. s) verbose_url None (Inr poster_page) first_post cs =
     ([Print ''No reward selected.''], Exited 0)"
  by (simp add: verbose_url_def poster_page_def page_before_def page_after_def
      titled_block_def main_def seq_def silent_def parse_defs)

section \<open>The watch loop\<close>

text \<open>
  What lines 220 to 224 do once they run: with the watch list A, B and the reward B found
  available, the list A.
\<close>

lemma remove_found_one:
  "remove_found [reward_A, reward_B] reward_B = ([], Go [reward_A])"
  by (simp add: run_defs reward_A_def reward_B_def)

text \<open>
  Claim C1, on which the code fails. With the watch list A, B and the extracted rewards
  A, C, the pass should announce B, send one notification and leave the watch list A.
  The pass prints the time-stamped line and then calls \<^verbatim>\<open>string\<close> on line 218, a name
  that is not bound: the NameError ends the script before the notification and the
  removal.
\<close>

theorem transition_raises:
  "watch_cycle unescape verbose delay url c ([reward_A, reward_B], [reward_A, reward_C], ks) =
     ([PrintTime], Raised (NameError ''string''))"
  by (simp add: run_defs reward_A_def reward_B_def reward_C_def)

text \<open>
  The same on the last watched reward: the loop ends in the NameError of line 218 and
  never reaches the removal of line 220.
\<close>

lemma last_transition_raises:
  "watch_loop unescape verbose delay url (c # cs) ([reward_B], [reward_A], ks) =
     ([PrintTime], Raised (NameError ''string''))"
  by (simp add: run_defs reward_A_def reward_B_def)

text \<open>
  Claim C8. Whenever the removal of line 220 leaves the watch list empty, lines 221 to
  223 pause for ten seconds and exit with status 0, and nothing that follows them runs:
  whatever the rest of the pass and of the loop is (the pause of line 227, the next
  fetch), the outcome is the pause of ten seconds and the exit.
\<close>

theorem exhaustion_exits:
  assumes "filter (\<lambda>x. x \<noteq> s) selected = []"
  shows "seq (remove_found selected s) rest = ([Sleep 10], Exited 0)"
  using assms by (simp add: remove_found_def seq_def sleep_def sleep_limit_def)

theorem exhaustion_exits_witness:
  "filter (\<lambda>x. x \<noteq> reward_B) [reward_B] = [] \<and>
   seq (remove_found [reward_B] reward_B) next_poll = ([Sleep 10], Exited 0)"
proof -
  have last: "filter (\<lambda>x. x \<noteq> reward_B) [reward_B] = []"
    by simp
  show ?thesis
    using last exhaustion_exits [OF last, of next_poll] by simp
qed



text \<open>
  A delay that \<^verbatim>\<open>time.sleep\<close> refuses ends the loop before the fetch of the pass.
\<close>

lemma long_delay_ends_loop:
  "first_available selected rwds = None \<Longrightarrow> sleep_limit < 60 * delay \<Longrightarrow>
   watch_loop unescape False delay url (c # cs) (selected, rwds, ks) = ([], Raised OverflowError)"
  by (simp add: watch_cycle_def seq_def sleep_def sleep_limit_def)


end
